theory Spec2Isabelle
  imports Complex_Main
begin

section \<open>JavaScript values\<close>

text \<open>
  The weather service answers with JSON, and the adapter copies whatever it finds in the
  answer into the record it returns, so the fields of a record are JavaScript values and
  not numbers. A value read from JSON is one of the following; \<open>JUndefined\<close> is what
  reading an absent property gives. Numbers are modelled as reals: JSON has no NaN, and
  the code only tests a number for being zero. An object is the list of its members in
  the order of the text; where a key is repeated, \<open>JSON.parse\<close> keeps the last one.
\<close>

datatype jsval =
    JUndefined
  | JNull
  | JBool bool
  | JNum real
  | JStr string
  | JArr "jsval list"
  | JObj "(string \<times> jsval) list"

text \<open>A thrown value; the handlers only ever read its \<open>message\<close>.\<close>

datatype js_error = JsError (message: string)

text \<open>\<open>v == null\<close>: the values that \<open>??\<close> replaces and on which property access throws.\<close>

fun nullish :: "jsval \<Rightarrow> bool" where
  "nullish JUndefined = True"
| "nullish JNull = True"
| "nullish _ = False"

text \<open>The operator \<open>a ?? b\<close>.\<close>

definition coalesce :: "jsval \<Rightarrow> jsval \<Rightarrow> jsval" where
  "coalesce a b = (if nullish a then b else a)"

text \<open>JavaScript truthiness, as \<open>!cw\<close> and \<open>weather.time &&\<close> test it.\<close>

fun truthy :: "jsval \<Rightarrow> bool" where
  "truthy JUndefined = False"
| "truthy JNull = False"
| "truthy (JBool b) = b"
| "truthy (JNum x) = (x \<noteq> 0)"
| "truthy (JStr s) = (s \<noteq> [])"
| "truthy (JArr _) = True"
| "truthy (JObj _) = True"

text \<open>
  \<open>v.k\<close> on a value that is not nullish, for the property names the adapter reads
  (\<open>current_weather\<close>, \<open>temperature\<close>, \<open>windspeed\<close>, \<open>winddirection\<close>,
  \<open>weathercode\<close>, \<open>time\<close>): an object gives its member, or \<open>undefined\<close> when it has
  none; booleans, numbers, strings and arrays have no property of these names.
\<close>

fun member_of :: "jsval \<Rightarrow> string \<Rightarrow> jsval" where
  "member_of (JObj kvs) k = (case map_of (rev kvs) k of None \<Rightarrow> JUndefined | Some v \<Rightarrow> v)"
| "member_of _ k = JUndefined"

text \<open>\<open>v.k\<close> in general: reading a property of \<open>null\<close> or \<open>undefined\<close> throws a TypeError.\<close>

definition getprop :: "jsval \<Rightarrow> string \<Rightarrow> js_error + jsval" where
  "getprop v k =
     (if nullish v then Inl (JsError ''Cannot read properties of null or undefined'')
      else Inr (member_of v k))"

section \<open>The weather fetch adapter\<close>

text \<open>A coordinate: two finite numbers, compared with \<open>===\<close> field by field.\<close>

record coordinate =
  lat :: real
  lng :: real

record unit_labels =
  unit_temperature :: string
  unit_windspeed :: string

record weather_record =
  temperature :: jsval
  windspeed :: jsval
  winddirection :: jsval
  weathercode :: jsval
  time :: jsval
  units :: unit_labels

text \<open>The string \<open>\<degree>C\<close>, as its two UTF-16 code units.\<close>

definition degrees_celsius :: string where
  "degrees_celsius = [CHR 0xB0, CHR ''C'']"

definition weather_units :: unit_labels where
  "weather_units = \<lparr>unit_temperature = degrees_celsius, unit_windspeed = ''km/h''\<rparr>"

text \<open>
  What \<open>fetchWeather\<close> meets outside itself. \<open>fetch(url)\<close> either rejects or resolves
  with a response; the response has its \<open>ok\<close> flag and a body that \<open>res.json()\<close> either
  fails to parse or parses to a value. The URL is built from \<open>lat\<close> and \<open>lng\<close> alone, so
  the service is a function of the coordinate. The clock is read through
  \<open>new Date().toISOString()\<close>: \<open>clock_at_call\<close> is what it gives at the moment
  \<open>fetchWeather\<close> is called, \<open>clock_at_settle\<close> what it gives once the awaited request
  and body have settled, which is where the source reads it.
\<close>

record response =
  ok :: bool
  json :: "js_error + jsval"

record env =
  http :: "coordinate \<Rightarrow> js_error + response"
  clock_at_call :: string
  clock_at_settle :: string

text \<open>The record of the \<open>catch\<close> block, with the clock reading it is given.\<close>

definition fallback_record :: "string \<Rightarrow> weather_record" where
  "fallback_record now =
     \<lparr>temperature = JStr ''--'',
      windspeed = JStr ''--'',
      winddirection = JStr ''--'',
      weathercode = JNum 0,
      time = JStr now,
      units = weather_units\<rparr>"

text \<open>
  The body of the \<open>try\<close> block: \<open>Inl\<close> is a throw (or a rejected await), \<open>Inr\<close> the
  returned record. After the test \<open>!cw\<close> the value \<open>cw\<close> is truthy, so reading its
  properties cannot throw.
\<close>

definition fetchWeather_try :: "env \<Rightarrow> coordinate \<Rightarrow> js_error + weather_record" where
  "fetchWeather_try e c =
     (case http e c of
        Inl err \<Rightarrow> Inl err
      | Inr res \<Rightarrow>
          if \<not> ok res then Inl (JsError ''Weather fetch failed'')
          else (case json res of
                  Inl err \<Rightarrow> Inl err
                | Inr data \<Rightarrow>
                    (case getprop data ''current_weather'' of
                       Inl err \<Rightarrow> Inl err
                     | Inr cw \<Rightarrow>
                         if \<not> truthy cw then Inl (JsError ''No current weather data available'')
                         else Inr
                           \<lparr>temperature = coalesce (member_of cw ''temperature'') (JStr ''--''),
                            windspeed = coalesce (member_of cw ''windspeed'') (JStr ''--''),
                            winddirection = coalesce (member_of cw ''winddirection'') (JStr ''--''),
                            weathercode = coalesce (member_of cw ''weathercode'') (JNum 0),
                            time = coalesce (member_of cw ''time'') (JStr (clock_at_settle e)),
                            units = weather_units\<rparr>)))"

text \<open>
  \<open>fetchWeather\<close>: the \<open>try\<close> block with its \<open>catch\<close>, which logs the error and returns
  the fallback record. The result is the promise's outcome: \<open>Inr\<close> resolved, \<open>Inl\<close>
  rejected.
\<close>

definition fetchWeather :: "env \<Rightarrow> coordinate \<Rightarrow> js_error + weather_record" where
  "fetchWeather e c =
     (case fetchWeather_try e c of
        Inr r \<Rightarrow> Inr r
      | Inl err \<Rightarrow> Inr (fallback_record (clock_at_settle e)))"

text \<open>A record with no field missing: no field is \<open>null\<close> or \<open>undefined\<close>.\<close>

definition fully_populated :: "weather_record \<Rightarrow> bool" where
  "fully_populated r \<longleftrightarrow>
     \<not> nullish (temperature r) \<and> \<not> nullish (windspeed r) \<and> \<not> nullish (winddirection r) \<and>
     \<not> nullish (weathercode r) \<and> \<not> nullish (time r) \<and> units r = weather_units"

text \<open>
  The failures the adapter absorbs, read off the outcome of the request: the transport
  failed, the status is not a success, the body does not parse, or the parsed body has no
  current-conditions section (\<open>current_weather\<close> absent or \<open>null\<close>, or no object to read
  it from).
\<close>

definition no_current_section :: "jsval \<Rightarrow> bool" where
  "no_current_section data =
     (case getprop data ''current_weather'' of Inl _ \<Rightarrow> True | Inr cw \<Rightarrow> nullish cw)"

definition request_failed :: "js_error + response \<Rightarrow> bool" where
  "request_failed t =
     (case t of
        Inl _ \<Rightarrow> True
      | Inr res \<Rightarrow>
          \<not> ok res \<or> (case json res of Inl _ \<Rightarrow> True | Inr data \<Rightarrow> no_current_section data))"

section \<open>The condition code table\<close>

text \<open>
  A number used as a property key, or spliced into a template literal, is first turned
  into a string. For an integer of magnitude below \<open>10^21\<close> that string is its
  decimal numeral, with a minus sign when negative, and \<open>js_toString\<close> is that
  numeral. From \<open>10^21\<close> upward JavaScript prints exponent form (\<open>1e+21\<close>), which
  \<open>js_toString\<close> does not give: what is proved through it is stated for codes below
  that bound only.
\<close>

fun show_nat :: "nat \<Rightarrow> string" where
  "show_nat n =
     (if n < 10 then [''0123456789'' ! n]
      else show_nat (n div 10) @ [''0123456789'' ! (n mod 10)])"

declare show_nat.simps [simp del]

definition js_toString :: "int \<Rightarrow> string" where
  "js_toString i = (if i < 0 then CHR ''-'' # show_nat (nat (- i)) else show_nat (nat i))"





section \<open>The weather panel\<close>

text \<open>The five \<open>useState\<close> cells of \<open>WeatherBuildingViewer\<close>.\<close>

record panel =
  modalOpen :: bool
  loading :: bool
  error :: string
  weather :: "weather_record option"
  clickedCoords :: coordinate

definition initial_panel :: "coordinate \<Rightarrow> panel" where
  "initial_panel coords =
     \<lparr>modalOpen = False, loading = False, error = [], weather = None, clickedCoords = coords\<rparr>"

text \<open>
  The test that ends \<open>onBuildingClick\<close> early. The handler is rebuilt whenever
  \<open>clickedCoords\<close> or \<open>weather\<close> changes, so the values it reads are those of the state
  in which the click arrives, before its own \<open>setClickedCoords\<close> takes effect.
\<close>

definition cache_hit :: "panel \<Rightarrow> coordinate \<Rightarrow> bool" where
  "cache_hit p coord \<longleftrightarrow>
     (case weather p of None \<Rightarrow> False | Some w \<Rightarrow> truthy (time w)) \<and>
     lat (clickedCoords p) = lat coord \<and> lng (clickedCoords p) = lng coord"

text \<open>
  \<open>onBuildingClick\<close> up to its \<open>await\<close>: the new state, and whether \<open>fetchWeather\<close> was
  called.
\<close>

definition onBuildingClick_begin :: "panel \<Rightarrow> coordinate \<Rightarrow> panel \<times> bool" where
  "onBuildingClick_begin p coord =
     (let p1 = p\<lparr>clickedCoords := coord, modalOpen := True\<rparr>
      in if cache_hit p coord then (p1, False)
         else (p1\<lparr>loading := True, error := []\<rparr>, True))"

text \<open>\<open>e.message || "Failed to fetch weather"\<close>.\<close>

definition display_message :: "js_error \<Rightarrow> string" where
  "display_message e = (if message e \<noteq> [] then message e else ''Failed to fetch weather'')"

text \<open>
  \<open>onBuildingClick\<close> after its \<open>await\<close>, on the state of that later moment: the
  \<open>try\<close> branch on a resolved promise, the \<open>catch\<close> branch on a rejected one, and
  \<open>finally\<close> after either.
\<close>

definition onBuildingClick_settle :: "panel \<Rightarrow> js_error + weather_record \<Rightarrow> panel" where
  "onBuildingClick_settle p r =
     (case r of
        Inr data \<Rightarrow> p\<lparr>weather := Some data\<rparr>\<lparr>loading := False\<rparr>
      | Inl e \<Rightarrow> p\<lparr>error := display_message e\<rparr>\<lparr>loading := False\<rparr>)"

text \<open>The effect that runs on mount, \<open>fetchCurrentWeather\<close>, before and after its \<open>await\<close>.\<close>

definition fetchCurrentWeather_begin :: "panel \<Rightarrow> panel" where
  "fetchCurrentWeather_begin p = p\<lparr>loading := True, error := []\<rparr>"

definition fetchCurrentWeather_settle ::
    "panel \<Rightarrow> coordinate \<Rightarrow> js_error + weather_record \<Rightarrow> panel" where
  "fetchCurrentWeather_settle p coords r =
     (case r of
        Inr data \<Rightarrow> p\<lparr>weather := Some data\<rparr>\<lparr>clickedCoords := coords\<rparr>\<lparr>loading := False\<rparr>
      | Inl e \<Rightarrow> p\<lparr>error := display_message e\<rparr>\<lparr>loading := False\<rparr>)"

text \<open>The backdrop and the close button: \<open>setModalOpen(false)\<close>. The key handler.\<close>

definition closeModal :: "panel \<Rightarrow> panel" where
  "closeModal p = p\<lparr>modalOpen := False\<rparr>"

definition onKey :: "panel \<Rightarrow> string \<Rightarrow> panel" where
  "onKey p key = (if key = ''Escape'' then closeModal p else p)"

text \<open>What the component renders for a state: the branches of the returned JSX.\<close>

datatype phase = Closed | OpenLoading | OpenErrored | OpenLoaded | OpenBlank

definition phase_of :: "panel \<Rightarrow> phase" where
  "phase_of p =
     (if \<not> modalOpen p then Closed
      else if loading p then OpenLoading
      else if error p \<noteq> [] then OpenErrored
      else if weather p \<noteq> None then OpenLoaded
      else OpenBlank)"

subsection \<open>The component with its requests in flight\<close>

text \<open>
  A call of \<open>fetchWeather\<close> suspends its caller until the request settles, and other
  events run meanwhile. The system is the panel together with the suspended callers, each
  remembering who called and for which coordinate, and the number of calls of
  \<open>fetchWeather\<close> so far, which also numbers the calls.
\<close>

datatype origin = ClickFetch | MountFetch

record request =
  origin :: origin
  target :: coordinate

record system =
  ui :: panel
  pending :: "nat \<Rightarrow> request option"
  fetchCalls :: nat

datatype event =
    Click coordinate
  | KeyDown string
  | BackdropClick
  | CloseButton
  | MountEffect coordinate
  | Settle nat env

definition issue :: "system \<Rightarrow> origin \<Rightarrow> coordinate \<Rightarrow> system" where
  "issue s orig coord =
     s\<lparr>pending := (pending s)(fetchCalls s \<mapsto> \<lparr>origin = orig, target = coord\<rparr>),
       fetchCalls := Suc (fetchCalls s)\<rparr>"

text \<open>
  One event. \<open>Settle i e\<close> resumes caller \<open>i\<close> with what \<open>fetchWeather\<close> makes of the
  network's answer \<open>e\<close>; it does nothing when no such call is in flight.
\<close>

fun step :: "system \<Rightarrow> event \<Rightarrow> system" where
  "step s (Click coord) =
     (case onBuildingClick_begin (ui s) coord of
        (p, fetching) \<Rightarrow>
          if fetching then issue (s\<lparr>ui := p\<rparr>) ClickFetch coord else s\<lparr>ui := p\<rparr>)"
| "step s (KeyDown key) = s\<lparr>ui := onKey (ui s) key\<rparr>"
| "step s BackdropClick = s\<lparr>ui := closeModal (ui s)\<rparr>"
| "step s CloseButton = s\<lparr>ui := closeModal (ui s)\<rparr>"
| "step s (MountEffect coords) =
     issue (s\<lparr>ui := fetchCurrentWeather_begin (ui s)\<rparr>) MountFetch coords"
| "step s (Settle i e) =
     (case pending s i of
        None \<Rightarrow> s
      | Some req \<Rightarrow>
          s\<lparr>ui := (case origin req of
                     ClickFetch \<Rightarrow>
                       onBuildingClick_settle (ui s) (fetchWeather e (target req))
                   | MountFetch \<Rightarrow>
                       fetchCurrentWeather_settle (ui s) (target req)
                         (fetchWeather e (target req))),
            pending := (pending s)(i := None)\<rparr>)"

fun run :: "system \<Rightarrow> event list \<Rightarrow> system" where
  "run s [] = s"
| "run s (ev # evs) = run (step s ev) evs"

text \<open>The component as first rendered with the prop \<open>coords\<close>, before its effects run.\<close>

definition boot :: "coordinate \<Rightarrow> system" where
  "boot coords = \<lparr>ui = initial_panel coords, pending = Map.empty, fetchCalls = 0\<rparr>"

subsection \<open>Sample inputs\<close>

text \<open>The coordinate \<open>App\<close> passes as \<open>coords\<close>, and the one the building is clicked with.\<close>

definition app_coords :: coordinate where
  "app_coords = \<lparr>lat = 12.972, lng = 77.593\<rparr>"

definition building_coords :: coordinate where
  "building_coords = \<lparr>lat = 12.8385, lng = 80.1697\<rparr>"

text \<open>A well-formed answer of the service reporting temperature \<open>t\<close>, read at time \<open>now\<close>.\<close>

definition service_body :: "real \<Rightarrow> jsval" where
  "service_body t =
     JObj [(''latitude'', JNum 12.75),
           (''current_weather'',
              JObj [(''temperature'', JNum t),
                    (''windspeed'', JNum 7.2),
                    (''winddirection'', JNum 90),
                    (''weathercode'', JNum 61),
                    (''time'', JStr ''2024-01-01T00:00'')])]"

definition service_ok :: "real \<Rightarrow> string \<Rightarrow> env" where
  "service_ok t now =
     \<lparr>http = (\<lambda>_. Inr \<lparr>ok = True, json = Inr (service_body t)\<rparr>),
      clock_at_call = now, clock_at_settle = now\<rparr>"

definition service_record :: "real \<Rightarrow> weather_record" where
  "service_record t =
     \<lparr>temperature = JNum t, windspeed = JNum 7.2, winddirection = JNum 90,
      weathercode = JNum 61, time = JStr ''2024-01-01T00:00'', units = weather_units\<rparr>"

text \<open>A network that is down: the request fails thirty seconds after the call.\<close>

definition service_down :: env where
  "service_down =
     \<lparr>http = (\<lambda>_. Inl (JsError ''Failed to fetch'')),
      clock_at_call = ''2024-01-01T00:00:00.000Z'',
      clock_at_settle = ''2024-01-01T00:00:30.000Z''\<rparr>"

text \<open>
  An answer whose current-conditions section reports the temperature as \<open>null\<close> and
  has neither wind direction nor time.
\<close>

definition partial_section :: jsval where
  "partial_section =
     JObj [(''temperature'', JNull), (''windspeed'', JNum 7.2), (''weathercode'', JNum 3)]"

definition partial_response :: response where
  "partial_response =
     \<lparr>ok = True, json = Inr (JObj [(''current_weather'', partial_section)])\<rparr>"

definition service_partial :: env where
  "service_partial =
     \<lparr>http = (\<lambda>_. Inr partial_response),
      clock_at_call = ''2024-01-01T00:00:00.000Z'',
      clock_at_settle = ''2024-01-01T00:00:01.000Z''\<rparr>"

section \<open>Properties of the adapter\<close>

lemma coalesce_not_nullish: "\<not> nullish d \<Longrightarrow> \<not> nullish (coalesce a d)"
  by (simp add: coalesce_def)

lemma truthy_not_nullish: "truthy v \<Longrightarrow> \<not> nullish v"
  by (cases v) simp_all

lemma fallback_fully_populated: "fully_populated (fallback_record now)"
  by (simp add: fully_populated_def fallback_record_def)

lemma fetchWeather_try_populated:
  assumes "fetchWeather_try e c = Inr r"
  shows "fully_populated r"
proof -
  from assms obtain cw where
    r: "r = \<lparr>temperature = coalesce (member_of cw ''temperature'') (JStr ''--''),
              windspeed = coalesce (member_of cw ''windspeed'') (JStr ''--''),
              winddirection = coalesce (member_of cw ''winddirection'') (JStr ''--''),
              weathercode = coalesce (member_of cw ''weathercode'') (JNum 0),
              time = coalesce (member_of cw ''time'') (JStr (clock_at_settle e)),
              units = weather_units\<rparr>"
    by (auto simp: fetchWeather_try_def split: sum.splits if_splits)
  show ?thesis
    unfolding r fully_populated_def by (simp add: coalesce_not_nullish)
qed

lemma fetchWeather_resolves: "\<exists>r. fetchWeather e c = Inr r"
  by (simp add: fetchWeather_def split: sum.splits)

text \<open>
  C2. For every coordinate and every behaviour of the network, \<open>fetchWeather\<close> resolves
  (its promise is never rejected), and the record it resolves with is fully populated:
  temperature, windspeed, winddirection, weathercode and time are all present, and the
  units are the fixed ones.
\<close>

theorem fetchWeather_never_rejects:
  "\<exists>r. fetchWeather e c = Inr r \<and> fully_populated r"
proof (cases "fetchWeather_try e c")
  case (Inl err)
  then show ?thesis
    by (simp add: fetchWeather_def fallback_fully_populated)
next
  case (Inr r)
  then show ?thesis
    by (simp add: fetchWeather_def fetchWeather_try_populated)
qed

text \<open>
  C3, as the claim has it: on a failure the adapter returns the fallback record stamped
  with the time of the call. It does not: the clock is read in the \<open>catch\<close> block,
  after the awaited request has failed. With the network down and the failure arriving
  thirty seconds after the call, the record carries the later time.
\<close>

theorem fallback_time_is_not_call_time:
  "request_failed (http service_down building_coords) \<and>
   fetchWeather service_down building_coords \<noteq>
     Inr (fallback_record (clock_at_call service_down))"
  by (simp add: request_failed_def service_down_def fetchWeather_def fetchWeather_try_def
      fallback_record_def)

text \<open>
  C3, amended. On a transport failure, a non-success status, a body that does not parse
  or a body without a current-conditions section, the adapter resolves with exactly the
  record of sentinels, weathercode 0 and the fixed units, stamped with the clock as it
  reads when the failure is handled.
\<close>

theorem fetchWeather_fallback_on_failure:
  assumes "request_failed (http e c)"
  shows "fetchWeather e c =
     Inr \<lparr>temperature = JStr ''--'', windspeed = JStr ''--'', winddirection = JStr ''--'',
          weathercode = JNum 0, time = JStr (clock_at_settle e),
          units = \<lparr>unit_temperature = degrees_celsius, unit_windspeed = ''km/h''\<rparr>\<rparr>"
proof -
  have "\<exists>err. fetchWeather_try e c = Inl err"
    using assms
    by (auto simp: request_failed_def no_current_section_def fetchWeather_try_def
        dest: truthy_not_nullish split: sum.splits)
  then show ?thesis
    by (auto simp: fetchWeather_def fallback_record_def weather_units_def)
qed

theorem fetchWeather_fallback_on_failure_witness:
  "request_failed (http service_down building_coords) \<and>
   fetchWeather service_down building_coords =
     Inr \<lparr>temperature = JStr ''--'', windspeed = JStr ''--'', winddirection = JStr ''--'',
          weathercode = JNum 0, time = JStr ''2024-01-01T00:00:30.000Z'',
          units = \<lparr>unit_temperature = degrees_celsius, unit_windspeed = ''km/h''\<rparr>\<rparr>"
proof -
  have h: "request_failed (http service_down building_coords)"
    by (simp add: request_failed_def service_down_def)
  show ?thesis
    using h fetchWeather_fallback_on_failure [OF h] by (simp add: service_down_def)
qed

lemma member_of_falsy: "\<not> truthy cw \<Longrightarrow> member_of cw k = JUndefined"
  by (cases cw) simp_all

text \<open>
  C4. When the request succeeds and the body has a current-conditions section \<open>cw\<close>,
  each field of the record is the service's value for it when that value is present, and
  the field's own default when it is \<open>null\<close> or absent: the sentinel for temperature,
  windspeed and winddirection, 0 for weathercode, the current clock reading for time. The
  fields are decided one by one. (A section that is present but falsy, such as \<open>0\<close>,
  goes through the \<open>catch\<close> block; it has no fields, and the fallback record is what the
  rule gives for it.)
\<close>

theorem fetchWeather_field_level_fallback:
  assumes "http e c = Inr res" and "ok res" and "json res = Inr data"
    and "getprop data ''current_weather'' = Inr cw" and "\<not> nullish cw"
  shows "\<exists>r. fetchWeather e c = Inr r \<and>
     temperature r = (if nullish (member_of cw ''temperature'') then JStr ''--''
                      else member_of cw ''temperature'') \<and>
     windspeed r = (if nullish (member_of cw ''windspeed'') then JStr ''--''
                    else member_of cw ''windspeed'') \<and>
     winddirection r = (if nullish (member_of cw ''winddirection'') then JStr ''--''
                        else member_of cw ''winddirection'') \<and>
     weathercode r = (if nullish (member_of cw ''weathercode'') then JNum 0
                      else member_of cw ''weathercode'') \<and>
     time r = (if nullish (member_of cw ''time'') then JStr (clock_at_settle e)
               else member_of cw ''time'') \<and>
     units r = weather_units"
proof (cases "truthy cw")
  case True
  with assms show ?thesis
    by (simp add: fetchWeather_def fetchWeather_try_def coalesce_def)
next
  case False
  with assms have "fetchWeather e c = Inr (fallback_record (clock_at_settle e))"
    by (simp add: fetchWeather_def fetchWeather_try_def)
  with False show ?thesis
    by (simp add: fallback_record_def member_of_falsy)
qed

theorem fetchWeather_field_level_fallback_witness:
  "http service_partial building_coords = Inr partial_response \<and> ok partial_response \<and>
   json partial_response = Inr (JObj [(''current_weather'', partial_section)]) \<and>
   getprop (JObj [(''current_weather'', partial_section)]) ''current_weather''
     = Inr partial_section \<and>
   \<not> nullish partial_section \<and>
   (\<exists>r. fetchWeather service_partial building_coords = Inr r \<and>
      temperature r = JStr ''--'' \<and> windspeed r = JNum 7.2 \<and>
      winddirection r = JStr ''--'' \<and> weathercode r = JNum 3 \<and>
      time r = JStr ''2024-01-01T00:00:01.000Z'' \<and> units r = weather_units)"
proof -
  have h1: "http service_partial building_coords = Inr partial_response"
    by (simp add: service_partial_def)
  have h2: "ok partial_response"
    by (simp add: partial_response_def)
  have h3: "json partial_response = Inr (JObj [(''current_weather'', partial_section)])"
    by (simp add: partial_response_def)
  have h4: "getprop (JObj [(''current_weather'', partial_section)]) ''current_weather''
      = Inr partial_section"
    by (simp add: getprop_def)
  have h5: "\<not> nullish partial_section"
    by (simp add: partial_section_def)
  have clock: "clock_at_settle service_partial = ''2024-01-01T00:00:01.000Z''"
    by (simp add: service_partial_def)
  have fields: "member_of partial_section ''temperature'' = JNull"
    "member_of partial_section ''windspeed'' = JNum 7.2"
    "member_of partial_section ''winddirection'' = JUndefined"
    "member_of partial_section ''weathercode'' = JNum 3"
    "member_of partial_section ''time'' = JUndefined"
    by (simp_all add: partial_section_def)
  show ?thesis
    using h1 h2 h3 h4 h5 fetchWeather_field_level_fallback [OF h1 h2 h3 h4 h5]
    by (simp add: clock fields)
qed

section \<open>Properties of the condition code table\<close>



lemma show_nat_nonempty: "show_nat n \<noteq> []"
  by (subst show_nat.simps) simp










lemma js_toString_nonempty: "js_toString i \<noteq> []"
  by (simp add: js_toString_def show_nat_nonempty)



section \<open>Properties of the weather panel\<close>

lemma fetchWeather_service_ok:
  "fetchWeather (service_ok t now) c = Inr (service_record t)"
  by (simp add: fetchWeather_def fetchWeather_try_def service_ok_def service_body_def
      service_record_def getprop_def coalesce_def)

text \<open>
  C1, as the claim has it: when a click on A and then a click on B each start a fetch and
  A's fetch resolves last, the record left in the panel is B's. It is not. After the mount
  fetch, the building is clicked (A) and then the coordinate of \<open>App\<close> (B); B's answer,
  20 degrees, arrives first and A's answer, 30 degrees, arrives second. The panel ends with
  B selected and A's record stored.
\<close>

theorem stale_resolution_overwrites_newer:
  "clickedCoords (ui (run (boot app_coords)
      [MountEffect app_coords, Settle 0 (service_ok 28 ''2024-01-01T00:00:01.000Z''),
       Click building_coords, Click app_coords,
       Settle 2 (service_ok 20 ''2024-01-01T00:00:02.000Z''),
       Settle 1 (service_ok 30 ''2024-01-01T00:00:05.000Z'')])) = app_coords \<and>
   weather (ui (run (boot app_coords)
      [MountEffect app_coords, Settle 0 (service_ok 28 ''2024-01-01T00:00:01.000Z''),
       Click building_coords, Click app_coords,
       Settle 2 (service_ok 20 ''2024-01-01T00:00:02.000Z''),
       Settle 1 (service_ok 30 ''2024-01-01T00:00:05.000Z'')])) = Some (service_record 30) \<and>
   fetchWeather (service_ok 20 ''2024-01-01T00:00:02.000Z'') app_coords
     = Inr (service_record 20) \<and>
   service_record 30 \<noteq> service_record 20"
  by (simp add: boot_def initial_panel_def app_coords_def building_coords_def
      onBuildingClick_begin_def cache_hit_def issue_def onBuildingClick_settle_def
      fetchCurrentWeather_begin_def fetchCurrentWeather_settle_def
      fetchWeather_service_ok service_record_def)

text \<open>
  C1, amended. The last resolution wins. A fetch started by a click, when it resolves,
  stores its record whatever coordinate is selected by then, and leaves the selected
  coordinate alone: nothing is discarded. So when a click on A starts a fetch, a click on
  a different coordinate B follows before it resolves, and A's fetch resolves after B's,
  the panel ends with B selected and the record of A's fetch stored.
\<close>

theorem last_resolution_wins:
  "(pending s i = Some req \<and> origin req = ClickFetch \<longrightarrow>
      (\<exists>r. fetchWeather e (target req) = Inr r \<and>
           weather (ui (step s (Settle i e))) = Some r \<and>
           clickedCoords (ui (step s (Settle i e))) = clickedCoords (ui s))) \<and>
   (\<not> cache_hit (ui s) a \<and> (lat a \<noteq> lat b \<or> lng a \<noteq> lng b) \<longrightarrow>
      (\<exists>ra. fetchWeather ea a = Inr ra \<and>
           clickedCoords (ui (run s [Click a, Click b, Settle (Suc (fetchCalls s)) eb,
                                     Settle (fetchCalls s) ea])) = b \<and>
           weather (ui (run s [Click a, Click b, Settle (Suc (fetchCalls s)) eb,
                               Settle (fetchCalls s) ea])) = Some ra))"
proof (intro conjI impI)
  assume h: "pending s i = Some req \<and> origin req = ClickFetch"
  obtain r where r: "fetchWeather e (target req) = Inr r"
    using fetchWeather_resolves by blast
  with h show "\<exists>r. fetchWeather e (target req) = Inr r \<and>
           weather (ui (step s (Settle i e))) = Some r \<and>
           clickedCoords (ui (step s (Settle i e))) = clickedCoords (ui s)"
    by (simp add: onBuildingClick_settle_def)
next
  assume h: "\<not> cache_hit (ui s) a \<and> (lat a \<noteq> lat b \<or> lng a \<noteq> lng b)"
  then have h1: "\<not> cache_hit (ui s) a" and h2: "lat a \<noteq> lat b \<or> lng a \<noteq> lng b"
    by simp_all
  obtain ra where ra: "fetchWeather ea a = Inr ra"
    using fetchWeather_resolves by blast
  obtain rb where rb: "fetchWeather eb b = Inr rb"
    using fetchWeather_resolves by blast
  define n where "n = fetchCalls s"
  define s1 where "s1 = step s (Click a)"
  define s2 where "s2 = step s1 (Click b)"
  define s3 where "s3 = step s2 (Settle (Suc n) eb)"
  define s4 where "s4 = step s3 (Settle n ea)"
  have s1: "clickedCoords (ui s1) = a" "fetchCalls s1 = Suc n"
    "pending s1 n = Some \<lparr>origin = ClickFetch, target = a\<rparr>"
    using h1 by (simp_all add: s1_def n_def onBuildingClick_begin_def issue_def)
  have miss: "\<not> cache_hit (ui s1) b"
    using h2 s1(1) by (auto simp: cache_hit_def)
  have s2: "clickedCoords (ui s2) = b"
    "pending s2 n = Some \<lparr>origin = ClickFetch, target = a\<rparr>"
    "pending s2 (Suc n) = Some \<lparr>origin = ClickFetch, target = b\<rparr>"
    using miss s1 by (simp_all add: s2_def onBuildingClick_begin_def issue_def)
  have s3: "clickedCoords (ui s3) = b"
    "pending s3 n = Some \<lparr>origin = ClickFetch, target = a\<rparr>"
    using s2 rb by (simp_all add: s3_def onBuildingClick_settle_def)
  have s4: "clickedCoords (ui s4) = b" "weather (ui s4) = Some ra"
    using s3 ra by (simp_all add: s4_def onBuildingClick_settle_def)
  have "run s [Click a, Click b, Settle (Suc (fetchCalls s)) eb, Settle (fetchCalls s) ea] = s4"
    by (simp add: s4_def s3_def s2_def s1_def n_def)
  with s4 ra show "\<exists>ra. fetchWeather ea a = Inr ra \<and>
           clickedCoords (ui (run s [Click a, Click b, Settle (Suc (fetchCalls s)) eb,
                                     Settle (fetchCalls s) ea])) = b \<and>
           weather (ui (run s [Click a, Click b, Settle (Suc (fetchCalls s)) eb,
                               Settle (fetchCalls s) ea])) = Some ra"
    by simp
qed

theorem last_resolution_wins_witness:
  "pending (step (boot app_coords) (Click building_coords)) 0
     = Some \<lparr>origin = ClickFetch, target = building_coords\<rparr> \<and>
   weather (ui (step (step (boot app_coords) (Click building_coords))
     (Settle 0 (service_ok 30 ''2024-01-01T00:00:05.000Z'')))) = Some (service_record 30) \<and>
   \<not> cache_hit (ui (boot app_coords)) building_coords \<and>
   lat building_coords \<noteq> lat app_coords \<and>
   clickedCoords (ui (run (boot app_coords)
      [Click building_coords, Click app_coords,
       Settle 1 (service_ok 20 ''2024-01-01T00:00:02.000Z''),
       Settle 0 (service_ok 30 ''2024-01-01T00:00:05.000Z'')])) = app_coords \<and>
   weather (ui (run (boot app_coords)
      [Click building_coords, Click app_coords,
       Settle 1 (service_ok 20 ''2024-01-01T00:00:02.000Z''),
       Settle 0 (service_ok 30 ''2024-01-01T00:00:05.000Z'')])) = Some (service_record 30)"
proof -
  have p: "pending (step (boot app_coords) (Click building_coords)) 0
     = Some \<lparr>origin = ClickFetch, target = building_coords\<rparr>"
    by (simp add: boot_def initial_panel_def onBuildingClick_begin_def cache_hit_def issue_def)
  have m: "\<not> cache_hit (ui (boot app_coords)) building_coords"
    by (simp add: boot_def initial_panel_def cache_hit_def)
  have d: "lat building_coords \<noteq> lat app_coords"
    by (simp add: app_coords_def building_coords_def)
  have n: "fetchCalls (boot app_coords) = 0"
    by (simp add: boot_def)
  show ?thesis
    using p m d
      last_resolution_wins [THEN conjunct1,
        of "step (boot app_coords) (Click building_coords)" 0
        "\<lparr>origin = ClickFetch, target = building_coords\<rparr>"
        "service_ok 30 ''2024-01-01T00:00:05.000Z''"]
      last_resolution_wins [THEN conjunct2, of "boot app_coords" building_coords app_coords
        "service_ok 30 ''2024-01-01T00:00:05.000Z''"
        "service_ok 20 ''2024-01-01T00:00:02.000Z''"]
    by (simp add: n fetchWeather_service_ok)
qed

text \<open>
  C6, as the claim has it: a click that meets the cache rule puts the panel in the loaded
  state. It need not. After the mount fetch has stored a record, the building is clicked
  (a fetch starts), the backdrop is clicked, and the building is clicked again before the
  fetch resolves: the cache rule holds, since the selected coordinate is already the
  building's and a record with a timestamp is stored, so no fetch is issued, but the panel
  is loading, and the record it holds is the one fetched for the coordinate of \<open>App\<close>.
\<close>

theorem cache_hit_while_loading:
  "cache_hit (ui (run (boot app_coords)
      [MountEffect app_coords, Settle 0 (service_ok 28 ''2024-01-01T00:00:01.000Z''),
       Click building_coords, BackdropClick])) building_coords \<and>
   phase_of (ui (run (boot app_coords)
      [MountEffect app_coords, Settle 0 (service_ok 28 ''2024-01-01T00:00:01.000Z''),
       Click building_coords, BackdropClick, Click building_coords])) = OpenLoading \<and>
   weather (ui (run (boot app_coords)
      [MountEffect app_coords, Settle 0 (service_ok 28 ''2024-01-01T00:00:01.000Z''),
       Click building_coords, BackdropClick, Click building_coords]))
     = Some (service_record 28)"
  by (simp add: boot_def initial_panel_def app_coords_def building_coords_def
      onBuildingClick_begin_def cache_hit_def issue_def fetchCurrentWeather_begin_def
      fetchCurrentWeather_settle_def fetchWeather_service_ok service_record_def phase_of_def
      closeModal_def)

text \<open>
  C6, amended. When the clicked coordinate equals the selected one and a record with a
  timestamp is stored, the click selects the coordinate, opens the panel and does nothing
  else: the record, the loading flag and the error stay as they were and no fetch is
  issued (the call count and the calls in flight are unchanged); the panel is then in the
  loaded state exactly when it was not loading and had no error. Otherwise the click
  enters the loading state and issues one fetch for the clicked coordinate.
\<close>

theorem click_cache_rule:
  "(cache_hit (ui s) c \<longrightarrow>
      ui (step s (Click c)) = (ui s)\<lparr>clickedCoords := c, modalOpen := True\<rparr> \<and>
      fetchCalls (step s (Click c)) = fetchCalls s \<and>
      pending (step s (Click c)) = pending s \<and>
      (phase_of (ui (step s (Click c))) = OpenLoaded \<longleftrightarrow>
         \<not> loading (ui s) \<and> error (ui s) = [])) \<and>
   (\<not> cache_hit (ui s) c \<longrightarrow>
      phase_of (ui (step s (Click c))) = OpenLoading \<and>
      clickedCoords (ui (step s (Click c))) = c \<and>
      weather (ui (step s (Click c))) = weather (ui s) \<and>
      fetchCalls (step s (Click c)) = Suc (fetchCalls s) \<and>
      pending (step s (Click c)) (fetchCalls s) = Some \<lparr>origin = ClickFetch, target = c\<rparr>)"
proof (intro conjI impI)
  assume hit: "cache_hit (ui s) c"
  then have st: "step s (Click c) = s\<lparr>ui := (ui s)\<lparr>clickedCoords := c, modalOpen := True\<rparr>\<rparr>"
    by (simp add: onBuildingClick_begin_def)
  show "ui (step s (Click c)) = (ui s)\<lparr>clickedCoords := c, modalOpen := True\<rparr>"
    and "fetchCalls (step s (Click c)) = fetchCalls s"
    and "pending (step s (Click c)) = pending s"
    unfolding st by simp_all
  from hit have "weather (ui s) \<noteq> None"
    by (auto simp: cache_hit_def split: option.splits)
  then show "phase_of (ui (step s (Click c))) = OpenLoaded \<longleftrightarrow>
         \<not> loading (ui s) \<and> error (ui s) = []"
    unfolding st by (simp add: phase_of_def)
next
  assume miss: "\<not> cache_hit (ui s) c"
  then have st: "step s (Click c) =
     issue (s\<lparr>ui := (ui s)\<lparr>clickedCoords := c, modalOpen := True, loading := True, error := []\<rparr>\<rparr>)
       ClickFetch c"
    by (simp add: onBuildingClick_begin_def)
  show "phase_of (ui (step s (Click c))) = OpenLoading"
    and "clickedCoords (ui (step s (Click c))) = c"
    and "weather (ui (step s (Click c))) = weather (ui s)"
    and "fetchCalls (step s (Click c)) = Suc (fetchCalls s)"
    and "pending (step s (Click c)) (fetchCalls s) = Some \<lparr>origin = ClickFetch, target = c\<rparr>"
    unfolding st by (simp_all add: issue_def phase_of_def)
qed

theorem click_cache_rule_witness:
  "cache_hit (ui (run (boot building_coords)
      [MountEffect building_coords, Settle 0 (service_ok 28 ''2024-01-01T00:00:01.000Z'')]))
      building_coords \<and>
   phase_of (ui (run (boot building_coords)
      [MountEffect building_coords, Settle 0 (service_ok 28 ''2024-01-01T00:00:01.000Z''),
       Click building_coords])) = OpenLoaded \<and>
   fetchCalls (run (boot building_coords)
      [MountEffect building_coords, Settle 0 (service_ok 28 ''2024-01-01T00:00:01.000Z''),
       Click building_coords]) = 1 \<and>
   \<not> cache_hit (ui (boot app_coords)) building_coords \<and>
   phase_of (ui (step (boot app_coords) (Click building_coords))) = OpenLoading \<and>
   fetchCalls (step (boot app_coords) (Click building_coords)) = 1"
proof -
  define s where "s = run (boot building_coords)
      [MountEffect building_coords, Settle 0 (service_ok 28 ''2024-01-01T00:00:01.000Z'')]"
  have ui: "ui s = \<lparr>modalOpen = False, loading = False, error = [],
      weather = Some (service_record 28), clickedCoords = building_coords\<rparr>"
    and calls: "fetchCalls s = 1"
    by (simp_all add: s_def boot_def initial_panel_def issue_def fetchCurrentWeather_begin_def
        fetchCurrentWeather_settle_def fetchWeather_service_ok)
  have hit: "cache_hit (ui s) building_coords"
    by (simp add: ui cache_hit_def service_record_def)
  have miss: "\<not> cache_hit (ui (boot app_coords)) building_coords"
    by (simp add: boot_def initial_panel_def cache_hit_def)
  have unfold: "run (boot building_coords)
      [MountEffect building_coords, Settle 0 (service_ok 28 ''2024-01-01T00:00:01.000Z''),
       Click building_coords] = step s (Click building_coords)"
    by (simp add: s_def)
  have "phase_of (ui (step s (Click building_coords))) = OpenLoaded \<and>
    fetchCalls (step s (Click building_coords)) = 1"
    using hit click_cache_rule [of s building_coords]
    by (simp add: ui calls phase_of_def del: step.simps)
  moreover have "phase_of (ui (step (boot app_coords) (Click building_coords))) = OpenLoading \<and>
    fetchCalls (step (boot app_coords) (Click building_coords)) = 1"
    using miss click_cache_rule [of "boot app_coords" building_coords]
    by (simp add: boot_def phase_of_def del: step.simps)
  ultimately show ?thesis
    using hit miss unfolding unfold s_def [symmetric] by simp
qed

text \<open>
  C7. The escape key and a click on the backdrop set \<open>modalOpen\<close> to false and change
  nothing else: the record, the selected coordinate, the loading flag and the error are as
  before, and no fetch is issued or dropped. So when a record with a timestamp is stored,
  a click on the selected coordinate after closing meets the cache rule: it issues no
  fetch and the record is still there.
\<close>

theorem close_keeps_record:
  "ui (step s (KeyDown ''Escape'')) = (ui s)\<lparr>modalOpen := False\<rparr> \<and>
   ui (step s BackdropClick) = (ui s)\<lparr>modalOpen := False\<rparr> \<and>
   (\<forall>ev \<in> {KeyDown ''Escape'', BackdropClick}.
      \<not> modalOpen (ui (step s ev)) \<and>
      weather (ui (step s ev)) = weather (ui s) \<and>
      clickedCoords (ui (step s ev)) = clickedCoords (ui s) \<and>
      loading (ui (step s ev)) = loading (ui s) \<and>
      error (ui (step s ev)) = error (ui s) \<and>
      pending (step s ev) = pending s \<and>
      fetchCalls (step s ev) = fetchCalls s \<and>
      (weather (ui s) = Some w \<and> truthy (time w) \<longrightarrow>
         fetchCalls (step (step s ev) (Click (clickedCoords (ui s)))) = fetchCalls s \<and>
         pending (step (step s ev) (Click (clickedCoords (ui s)))) = pending s \<and>
         weather (ui (step (step s ev) (Click (clickedCoords (ui s))))) = Some w))"
  by (auto simp: onKey_def closeModal_def onBuildingClick_begin_def cache_hit_def)

theorem close_keeps_record_witness:
  "BackdropClick \<in> {KeyDown ''Escape'', BackdropClick} \<and>
   KeyDown ''Escape'' \<in> {KeyDown ''Escape'', BackdropClick} \<and>
   weather (ui (run (boot building_coords)
      [MountEffect building_coords, Settle 0 (service_ok 28 ''2024-01-01T00:00:01.000Z''),
       Click building_coords])) = Some (service_record 28) \<and>
   truthy (time (service_record 28)) \<and>
   \<not> modalOpen (ui (step (run (boot building_coords)
      [MountEffect building_coords, Settle 0 (service_ok 28 ''2024-01-01T00:00:01.000Z''),
       Click building_coords]) (KeyDown ''Escape''))) \<and>
   fetchCalls (step (step (run (boot building_coords)
      [MountEffect building_coords, Settle 0 (service_ok 28 ''2024-01-01T00:00:01.000Z''),
       Click building_coords]) (KeyDown ''Escape'')) (Click building_coords)) = 1 \<and>
   fetchCalls (step (step (run (boot building_coords)
      [MountEffect building_coords, Settle 0 (service_ok 28 ''2024-01-01T00:00:01.000Z''),
       Click building_coords]) BackdropClick) (Click building_coords)) = 1"
proof -
  define s where "s = run (boot building_coords)
      [MountEffect building_coords, Settle 0 (service_ok 28 ''2024-01-01T00:00:01.000Z''),
       Click building_coords]"
  have ui: "ui s = \<lparr>modalOpen = True, loading = False, error = [],
      weather = Some (service_record 28), clickedCoords = building_coords\<rparr>"
    and calls: "fetchCalls s = 1"
    by (simp_all add: s_def boot_def initial_panel_def issue_def fetchCurrentWeather_begin_def
        fetchCurrentWeather_settle_def fetchWeather_service_ok onBuildingClick_begin_def
        cache_hit_def service_record_def)
  have w: "weather (ui s) = Some (service_record 28)"
    and c: "clickedCoords (ui s) = building_coords"
    by (simp_all add: ui)
  have t: "truthy (time (service_record 28))"
    by (simp add: service_record_def)
  have m: "BackdropClick \<in> {KeyDown ''Escape'', BackdropClick}"
    "KeyDown ''Escape'' \<in> {KeyDown ''Escape'', BackdropClick}"
    by simp_all
  show ?thesis
    unfolding s_def [symmetric]
    using w t m close_keeps_record [of s "service_record 28"]
    by (simp add: c calls del: step.simps)
qed

lemma step_keeps_error_empty:
  assumes "error (ui s) = []"
  shows "error (ui (step s ev)) = []"
proof (cases ev)
  case (Click c)
  with assms show ?thesis
    by (simp add: onBuildingClick_begin_def Let_def issue_def)
next
  case (KeyDown k)
  with assms show ?thesis by (simp add: onKey_def closeModal_def)
next
  case BackdropClick
  with assms show ?thesis by (simp add: closeModal_def)
next
  case CloseButton
  with assms show ?thesis by (simp add: closeModal_def)
next
  case (MountEffect c)
  then show ?thesis by (simp add: fetchCurrentWeather_begin_def issue_def)
next
  case (Settle i e)
  show ?thesis
  proof (cases "pending s i")
    case None
    with Settle assms show ?thesis by simp
  next
    case (Some req)
    obtain r where "fetchWeather e (target req) = Inr r"
      using fetchWeather_resolves by blast
    with Settle Some assms show ?thesis
      by (simp add: onBuildingClick_settle_def fetchCurrentWeather_settle_def
          split: origin.splits)
  qed
qed

lemma run_keeps_error_empty: "error (ui s) = [] \<Longrightarrow> error (ui (run s evs)) = []"
  by (induction evs arbitrary: s) (simp_all add: step_keeps_error_empty del: step.simps)

text \<open>
  C8. Since \<open>fetchWeather\<close> never rejects, the click handler resumes in its \<open>try\<close>
  branch every time: it stores a record and clears the loading flag, and the \<open>catch\<close>
  branch that would store a message does not run. The error message is the empty string
  in every state the component reaches from its first render, whatever the events and
  whatever the network answers, so the errored state is never shown.
\<close>

theorem error_state_unreachable:
  "(\<exists>r. onBuildingClick_settle p (fetchWeather e c)
          = p\<lparr>weather := Some r, loading := False\<rparr>) \<and>
   error (ui (run (boot coords) evs)) = [] \<and>
   phase_of (ui (run (boot coords) evs)) \<noteq> OpenErrored"
proof -
  obtain r where "fetchWeather e c = Inr r"
    using fetchWeather_resolves by blast
  then have "onBuildingClick_settle p (fetchWeather e c)
      = p\<lparr>weather := Some r, loading := False\<rparr>"
    by (simp add: onBuildingClick_settle_def)
  moreover have "error (ui (run (boot coords) evs)) = []"
    by (rule run_keeps_error_empty) (simp add: boot_def initial_panel_def)
  ultimately show ?thesis
    by (auto simp: phase_of_def)
qed

text \<open>
  C9. The component starts with the panel closed. Its mount effect issues one fetch, for
  the default coordinate, and leaves the panel closed; when that fetch resolves, its
  record is stored, the selected coordinate is set to the default, and the panel is still
  closed. The resumed effect stores the record and writes the default coordinate in any
  state, also over a coordinate that a click has selected in the meantime, and neither
  half of the effect touches \<open>modalOpen\<close> in any state.
\<close>

theorem mount_prefetch_keeps_panel_closed:
  "\<not> modalOpen (ui (boot coords)) \<and>
   \<not> modalOpen (ui (step (boot coords) (MountEffect coords))) \<and>
   fetchCalls (step (boot coords) (MountEffect coords)) = 1 \<and>
   pending (step (boot coords) (MountEffect coords)) 0
     = Some \<lparr>origin = MountFetch, target = coords\<rparr> \<and>
   (\<exists>r. fetchWeather e coords = Inr r \<and>
        weather (ui (run (boot coords) [MountEffect coords, Settle 0 e])) = Some r \<and>
        clickedCoords (ui (run (boot coords) [MountEffect coords, Settle 0 e])) = coords \<and>
        \<not> modalOpen (ui (run (boot coords) [MountEffect coords, Settle 0 e])) \<and>
        weather (ui (run (boot coords) [MountEffect coords, Click c, Settle 0 e])) = Some r \<and>
        clickedCoords (ui (run (boot coords) [MountEffect coords, Click c, Settle 0 e]))
          = coords) \<and>
   weather (fetchCurrentWeather_settle p coords (Inr data)) = Some data \<and>
   clickedCoords (fetchCurrentWeather_settle p coords (Inr data)) = coords \<and>
   modalOpen (fetchCurrentWeather_begin p) = modalOpen p \<and>
   modalOpen (fetchCurrentWeather_settle p coords result) = modalOpen p"
proof -
  obtain r where r: "fetchWeather e coords = Inr r"
    using fetchWeather_resolves by blast
  have frame: "modalOpen (fetchCurrentWeather_settle p coords result) = modalOpen p"
    by (cases result) (simp_all add: fetchCurrentWeather_settle_def)
  have handler: "weather (fetchCurrentWeather_settle p coords (Inr data)) = Some data"
    "clickedCoords (fetchCurrentWeather_settle p coords (Inr data)) = coords"
    by (simp_all add: fetchCurrentWeather_settle_def)
  have direct: "weather (ui (run (boot coords) [MountEffect coords, Settle 0 e])) = Some r"
    "clickedCoords (ui (run (boot coords) [MountEffect coords, Settle 0 e])) = coords"
    "\<not> modalOpen (ui (run (boot coords) [MountEffect coords, Settle 0 e]))"
    using r
    by (simp_all add: boot_def initial_panel_def issue_def fetchCurrentWeather_begin_def
        fetchCurrentWeather_settle_def)
  have clicked: "weather (ui (run (boot coords) [MountEffect coords, Click c, Settle 0 e])) = Some r"
    "clickedCoords (ui (run (boot coords) [MountEffect coords, Click c, Settle 0 e])) = coords"
    using r
    by (simp_all add: boot_def initial_panel_def issue_def fetchCurrentWeather_begin_def
        fetchCurrentWeather_settle_def onBuildingClick_begin_def cache_hit_def)
  have start: "\<not> modalOpen (ui (boot coords))"
    "\<not> modalOpen (ui (step (boot coords) (MountEffect coords)))"
    "fetchCalls (step (boot coords) (MountEffect coords)) = 1"
    "pending (step (boot coords) (MountEffect coords)) 0
       = Some \<lparr>origin = MountFetch, target = coords\<rparr>"
    "modalOpen (fetchCurrentWeather_begin p) = modalOpen p"
    by (simp_all add: boot_def initial_panel_def issue_def fetchCurrentWeather_begin_def)
  from r frame handler direct clicked start show ?thesis
    by blast
qed

text \<open>
  C10. Every fetch sets the loading flag before it awaits: a click that issues a fetch
  leaves \<open>loading\<close> true with its call in flight, and so does the mount effect. When the
  awaited call settles, \<open>loading\<close> is false, whether the promise resolved or rejected
  (\<open>result\<close> ranges over both), for the click handler and for the mount effect alike; so
  in the running component every call in flight that settles leaves \<open>loading\<close> false.
\<close>

theorem loading_flag_reset:
  "(fetchCalls (step s (Click c)) \<noteq> fetchCalls s \<longrightarrow>
      loading (ui (step s (Click c))) \<and>
      pending (step s (Click c)) (fetchCalls s) = Some \<lparr>origin = ClickFetch, target = c\<rparr>) \<and>
   loading (ui (step s (MountEffect c))) \<and>
   pending (step s (MountEffect c)) (fetchCalls s) = Some \<lparr>origin = MountFetch, target = c\<rparr> \<and>
   \<not> loading (onBuildingClick_settle p result) \<and>
   \<not> loading (fetchCurrentWeather_settle p c result) \<and>
   (pending s i = Some req \<longrightarrow> \<not> loading (ui (step s (Settle i e))))"
proof -
  have click: "loading (ui (step s (Click c))) \<and>
      pending (step s (Click c)) (fetchCalls s) = Some \<lparr>origin = ClickFetch, target = c\<rparr>"
    if "fetchCalls (step s (Click c)) \<noteq> fetchCalls s"
    using that by (simp add: onBuildingClick_begin_def Let_def issue_def split: if_splits)
  have mount: "loading (ui (step s (MountEffect c)))"
    "pending (step s (MountEffect c)) (fetchCalls s) = Some \<lparr>origin = MountFetch, target = c\<rparr>"
    by (simp_all add: fetchCurrentWeather_begin_def issue_def)
  have settle: "\<not> loading (onBuildingClick_settle q x)"
    "\<not> loading (fetchCurrentWeather_settle q c' x)" for q c' x
    by (cases x; simp add: onBuildingClick_settle_def fetchCurrentWeather_settle_def)+
  have sys: "\<not> loading (ui (step s (Settle i e)))" if "pending s i = Some req"
    using that settle by (simp split: origin.splits)
  from click mount settle sys show ?thesis
    by blast
qed

theorem loading_flag_reset_witness:
  "fetchCalls (step (boot app_coords) (Click building_coords)) \<noteq> fetchCalls (boot app_coords) \<and>
   loading (ui (step (boot app_coords) (Click building_coords))) \<and>
   pending (step (boot app_coords) (Click building_coords)) 0
     = Some \<lparr>origin = ClickFetch, target = building_coords\<rparr> \<and>
   \<not> loading (ui (step (step (boot app_coords) (Click building_coords))
                   (Settle 0 service_down)))"
proof -
  define s where "s = step (boot app_coords) (Click building_coords)"
  have a: "fetchCalls (step (boot app_coords) (Click building_coords))
      \<noteq> fetchCalls (boot app_coords)"
    by (simp add: boot_def initial_panel_def onBuildingClick_begin_def cache_hit_def issue_def)
  have n: "fetchCalls (boot app_coords) = 0"
    by (simp add: boot_def)
  have b: "pending s 0 = Some \<lparr>origin = ClickFetch, target = building_coords\<rparr>"
    by (simp add: s_def boot_def initial_panel_def onBuildingClick_begin_def cache_hit_def
        issue_def)
  show ?thesis
    unfolding s_def [symmetric]
    using a [folded s_def] b
      loading_flag_reset [THEN conjunct1, of "boot app_coords" building_coords, folded s_def]
      loading_flag_reset [of s _ _ _ 0 "\<lparr>origin = ClickFetch, target = building_coords\<rparr>"
        service_down]
    by (simp add: n del: step.simps)
qed

end
